theory Spec2Isabelle
  imports Complex_Main "HOL-Library.Multiset"
begin

section \<open>Stock analyzer: indicator pipeline of \<open>src/app/api/stock/[symbol]/route.ts\<close>\<close>

text \<open>
  Numbers of the source are JavaScript doubles. They are modelled as reals: arithmetic is
  exact, and there is no NaN and no infinity. The source divides by \<open>period\<close> and by
  \<open>period + 1\<close>, and for \<open>period < 1\<close> it reads \<open>result[-1]\<close>; JavaScript answers
  with NaN or an infinity there, which a real cannot express. Each property below about a
  computed value is therefore stated for \<open>1 \<le> period\<close> or at the periods that \<open>GET\<close>
  passes (9, 12, 14, 20, 26, 50); the properties about lengths and about absent entries
  do not depend on any value and hold for every period.

  An entry of type \<open>number | null\<close> is a \<open>real option\<close>, with \<open>None\<close> for \<open>null\<close>.
  A scalar that JavaScript may leave \<open>undefined\<close> (a read past the end of an array) is a
  \<open>real option\<close> as well, with \<open>None\<close> for "no number": \<open>null\<close> and
  \<open>undefined\<close> are both falsy, and every comparison with \<open>undefined\<close> is false.
\<close>

subsection \<open>Array primitives of the host language\<close>

text \<open>\<open>xs.slice(start, end)\<close>: a negative index counts from the end, both are clipped
  to the array, and an empty range gives the empty array.\<close>

definition slice :: "'a list \<Rightarrow> int \<Rightarrow> int \<Rightarrow> 'a list" where
  "slice xs start end =
     (let n = int (length xs);
          k = (if start < 0 then max (n + start) 0 else min start n);
          e = (if end < 0 then max (n + end) 0 else min end n)
      in take (nat (e - k)) (drop (nat k) xs))"

text \<open>\<open>xs.slice(start)\<close> runs to the end of the array.\<close>

definition slice_from :: "'a list \<Rightarrow> int \<Rightarrow> 'a list" where
  "slice_from xs start = slice xs start (int (length xs))"

text \<open>\<open>xs.reduce((a, b) => a + b, 0)\<close>.\<close>

definition reduce_add :: "real list \<Rightarrow> real" where
  "reduce_add xs = foldl (\<lambda>a b. a + b) 0 xs"

text \<open>\<open>xs[i]\<close>: \<open>undefined\<close> outside the array, never an exception.\<close>

definition elem :: "'a list \<Rightarrow> int \<Rightarrow> 'a option" where
  "elem xs i = (if 0 \<le> i \<and> i < int (length xs) then Some (xs ! nat i) else None)"

text \<open>\<open>xs[i]\<close> of a \<open>(number | null)[]\<close> read as a scalar: the number, or no number for
  \<open>null\<close> and for \<open>undefined\<close>.\<close>

definition latest :: "real option list \<Rightarrow> int \<Rightarrow> real option" where
  "latest xs i = (case elem xs i of Some v \<Rightarrow> v | None \<Rightarrow> None)"

text \<open>\<open>xs[i] as number\<close> inside arithmetic: \<open>null\<close> coerces to 0. Outside the array
  JavaScript computes with NaN; that happens only for \<open>period < 1\<close>, where the model
  is not used.\<close>

definition as_number :: "real option list \<Rightarrow> int \<Rightarrow> real" where
  "as_number xs i = (case latest xs i of Some v \<Rightarrow> v | None \<Rightarrow> 0)"

subsection \<open>Moving averages\<close>

definition calculateSMA :: "real list \<Rightarrow> int \<Rightarrow> real option list" where
  "calculateSMA data period =
     map (\<lambda>i. if int i < period - 1 then None
               else Some (reduce_add (slice data (int i - period + 1) (int i + 1))
                          / real_of_int period))
         [0..<length data]"

text \<open>One round of the loop of \<open>calculateEMA\<close>: the entry pushed at index \<open>i\<close>, given
  the entries pushed so far.\<close>

definition ema_entry :: "real list \<Rightarrow> int \<Rightarrow> nat \<Rightarrow> real option list \<Rightarrow> real option" where
  "ema_entry data period i result =
     (let multiplier = 2 / (real_of_int period + 1) in
      if int i < period - 1 then None
      else if int i = period - 1 then
        Some (reduce_add (slice data 0 period) / real_of_int period)
      else
        (let prevEma = as_number result (int i - 1)
         in Some ((data ! i - prevEma) * multiplier + prevEma)))"

definition calculateEMA :: "real list \<Rightarrow> int \<Rightarrow> real option list" where
  "calculateEMA data period =
     fold (\<lambda>i result. result @ [ema_entry data period i result]) [0..<length data] []"

subsection \<open>Relative strength index\<close>

text \<open>
  \<open>calculateRSI\<close> first fills an array \<open>result\<close> by a recurrence and never reads it
  again; that loop only does arithmetic and cannot throw, so it has no effect on what
  the function returns. The model is the second loop, which builds the returned array.

  One round of its inner loop over \<open>j\<close>, on the pair of running sums:
\<close>

definition rsi_step :: "real list \<Rightarrow> int \<Rightarrow> real \<times> real \<Rightarrow> real \<times> real" where
  "rsi_step closes j acc =
     (case acc of (avgGain, avgLoss) \<Rightarrow>
        if j > 0 then
          (let change = closes ! nat j - closes ! nat (j - 1)
           in if change > 0 then (avgGain + change, avgLoss)
              else (avgGain, avgLoss + \<bar>change\<bar>))
        else (avgGain, avgLoss))"

definition calculateRSI :: "real list \<Rightarrow> int \<Rightarrow> real option list" where
  "calculateRSI closes period =
     map (\<lambda>i. if int i < period then None
               else
                 (case fold (rsi_step closes) [int i - period + 1..int i] (0, 0) of
                    (sumGain, sumLoss) \<Rightarrow>
                      (let avgGain = sumGain / real_of_int period;
                           avgLoss = sumLoss / real_of_int period
                       in if avgLoss = 0 then Some 100
                          else (let rs = avgGain / avgLoss
                                in Some (100 - (100 / (1 + rs)))))))
         [0..<length closes]"

subsection \<open>MACD\<close>

text \<open>JavaScript's truthiness of a \<open>number | null | undefined\<close>: \<open>null\<close>,
  \<open>undefined\<close> and the number 0 are falsy. \<open>a || b\<close> is \<open>a\<close> when \<open>a\<close> is truthy and
  \<open>b\<close> otherwise.\<close>

definition truthy :: "real option \<Rightarrow> bool" where
  "truthy v = (case v of Some x \<Rightarrow> x \<noteq> 0 | None \<Rightarrow> False)"

definition js_or :: "real option \<Rightarrow> real option \<Rightarrow> real option" where
  "js_or a b = (if truthy a then a else b)"

record macd_series =
  macd :: "real option list"
  signal :: "real option list"
  histogram :: "real option list"

text \<open>The MACD line. \<open>ema12\<close> and \<open>ema26\<close> are as long as \<open>closes\<close>
  (lemma \<open>length_calculateEMA\<close>), so every read is inside the array.\<close>

definition macd_line :: "real list \<Rightarrow> real option list" where
  "macd_line closes =
     (let ema12 = calculateEMA closes 12;
          ema26 = calculateEMA closes 26
      in map (\<lambda>i. case (ema12 ! i, ema26 ! i) of
                     (Some a, Some b) \<Rightarrow> Some (a - b)
                   | _ \<Rightarrow> None)
             [0..<length closes])"

text \<open>The signal loop walks the MACD line \<open>ms\<close> from left to right and carries \<open>validIndex\<close>;
  it pushes \<open>signalEma[validIndex] || null\<close> at every defined MACD entry.\<close>

definition signal_step ::
  "real option list \<Rightarrow> real option \<Rightarrow> real option list \<times> int \<Rightarrow> real option list \<times> int" where
  "signal_step signalEma m st =
     (case st of (sig, validIndex) \<Rightarrow>
        (case m of
           None \<Rightarrow> (sig @ [None], validIndex)
         | Some _ \<Rightarrow> (sig @ [js_or (latest signalEma validIndex) None], validIndex + 1)))"

definition signal_line :: "real option list \<Rightarrow> real option list" where
  "signal_line ms =
     (let validMacd = List.map_filter (\<lambda>v. v) ms;
          signalEma = calculateEMA validMacd 9
      in fst (fold (signal_step signalEma) ms ([], 0)))"

text \<open>The histogram. \<open>sig\<close> is as long as the MACD line \<open>ms\<close> (lemma \<open>length_signal_line\<close>).\<close>

definition histogram_of :: "real option list \<Rightarrow> real option list \<Rightarrow> real option list" where
  "histogram_of ms sig =
     map (\<lambda>i. case (ms ! i, sig ! i) of
                 (Some a, Some b) \<Rightarrow> Some (a - b)
               | _ \<Rightarrow> None)
         [0..<length ms]"

definition calculateMACD :: "real list \<Rightarrow> macd_series" where
  "calculateMACD closes =
     (let m = macd_line closes;
          s = signal_line m;
          h = histogram_of m s
      in \<lparr>macd = m, signal = s, histogram = h\<rparr>)"

subsection \<open>Bollinger bands\<close>

record bollinger_bands =
  upper :: "real option list"
  middle :: "real option list"
  lower :: "real option list"

text \<open>The standard deviation of the window ending at \<open>i\<close> around \<open>mean\<close>
  (divided by \<open>period\<close>).\<close>

definition window_std :: "real list \<Rightarrow> int \<Rightarrow> nat \<Rightarrow> real \<Rightarrow> real" where
  "window_std closes period i mean =
     (let sl = slice closes (int i - period + 1) (int i + 1);
          squaredDiffs = map (\<lambda>v. (v - mean) ^ 2) sl
      in sqrt (reduce_add squaredDiffs / real_of_int period))"

definition calculateBollingerBands :: "real list \<Rightarrow> int \<Rightarrow> real \<Rightarrow> bollinger_bands" where
  "calculateBollingerBands closes period stdDev =
     (let mid = calculateSMA closes period;
          up = map (\<lambda>i. if int i < period - 1 then None
                         else (let mean = as_number mid (int i);
                                   std = window_std closes period i mean
                               in Some (mean + stdDev * std)))
                   [0..<length closes];
          lo = map (\<lambda>i. if int i < period - 1 then None
                         else (let mean = as_number mid (int i);
                                   std = window_std closes period i mean
                               in Some (mean - stdDev * std)))
                   [0..<length closes]
      in \<lparr>upper = up, middle = mid, lower = lo\<rparr>)"

subsection \<open>Support and resistance levels\<close>

text \<open>\<open>a < b\<close> and \<open>a > b\<close> on scalars that may be \<open>undefined\<close>: false as soon as
  one side is no number.\<close>

definition js_lt :: "real option \<Rightarrow> real option \<Rightarrow> bool" where
  "js_lt a b = (case (a, b) of (Some x, Some y) \<Rightarrow> x < y | _ \<Rightarrow> False)"

definition js_gt :: "real option \<Rightarrow> real option \<Rightarrow> bool" where
  "js_gt a b = (case (a, b) of (Some x, Some y) \<Rightarrow> x > y | _ \<Rightarrow> False)"

text \<open>The two tests of the pivot loop at index \<open>i\<close>.\<close>

definition is_support :: "real list \<Rightarrow> nat \<Rightarrow> bool" where
  "is_support lows i =
     (js_lt (elem lows (int i)) (elem lows (int i - 1)) \<and>
      js_lt (elem lows (int i)) (elem lows (int i - 2)) \<and>
      js_lt (elem lows (int i)) (elem lows (int i + 1)) \<and>
      js_lt (elem lows (int i)) (elem lows (int i + 2)))"

definition is_resistance :: "real list \<Rightarrow> nat \<Rightarrow> bool" where
  "is_resistance highs i =
     (js_gt (elem highs (int i)) (elem highs (int i - 1)) \<and>
      js_gt (elem highs (int i)) (elem highs (int i - 2)) \<and>
      js_gt (elem highs (int i)) (elem highs (int i + 1)) \<and>
      js_gt (elem highs (int i)) (elem highs (int i + 2)))"

text \<open>The loop \<open>for (i = 2; i < lows.length - 2; i++)\<close> runs over \<open>[2..<length lows - 2]\<close>
  (empty when \<open>lows\<close> has fewer than five entries); both tests use its bound. A pushed
  value is a number: the test is false when \<open>highs[i]\<close> is \<open>undefined\<close>.\<close>

definition support_candidates :: "real list \<Rightarrow> real list" where
  "support_candidates lows =
     List.map_filter (\<lambda>i. if is_support lows i then elem lows (int i) else None)
       [2..<length lows - 2]"

definition resistance_candidates :: "real list \<Rightarrow> real list \<Rightarrow> real list" where
  "resistance_candidates lows highs =
     List.map_filter (\<lambda>i. if is_resistance highs i then elem highs (int i) else None)
       [2..<length lows - 2]"

record levels =
  support :: "real option list"
  resistance :: "real option list"

text \<open>\<open>sort((a, b) => b - a)\<close> orders numbers descending, \<open>sort((a, b) => a - b)\<close>
  ascending. The fallback reads the last entry, which is \<open>undefined\<close> for an empty
  array.\<close>

definition findSupportResistance :: "real list \<Rightarrow> real list \<Rightarrow> levels" where
  "findSupportResistance lows highs =
     (let recentSupport = rev (sort (slice_from (support_candidates lows) (- 3)));
          recentResistance = sort (slice_from (resistance_candidates lows highs) (- 3))
      in \<lparr>support =
            (if length recentSupport > 0 then map Some recentSupport
             else [elem lows (int (length lows) - 1)]),
          resistance =
            (if length recentResistance > 0 then map Some recentResistance
             else [elem highs (int (length highs) - 1)])\<rparr>)"

subsection \<open>Signal synthesizer\<close>

datatype verdict = BUY | SELL | HOLD | NEUTRAL

text \<open>
  The argument of \<open>calculateSignal\<close>. The caller passes \<open>closes[lastIndex]\<close> and
  \<open>latest || currentPrice\<close> for the five price-scale fields, which are \<open>undefined\<close>
  when the series is empty; \<open>rsi\<close>, \<open>macd\<close> and \<open>macdSignal\<close> are always numbers
  (\<open>latest || 50\<close>, \<open>latest || 0\<close>).
\<close>

record signal_data =
  currentPrice :: "real option"
  ma20 :: "real option"
  ma50 :: "real option"
  rsi :: real
  macdValue :: real
  macdSignal :: real
  bollingerUpper :: "real option"
  bollingerLower :: "real option"

text \<open>The four per-indicator verdicts. The \<open>reason\<close> strings are fixed texts chosen by
  the same branches and are left out.\<close>

record sub_signals =
  maCrossover :: verdict
  rsiSignal :: verdict
  macdVerdict :: verdict
  bollinger :: verdict

record signal_result =
  confidence :: int
  verdict :: verdict
  signals :: sub_signals

text \<open>\<open>Math.round\<close> rounds to the nearest integer, a half upwards.\<close>

definition js_round :: "real \<Rightarrow> int" where
  "js_round x = \<lfloor>x + 1 / 2\<rfloor>"

text \<open>The contribution and the verdict of each of the four branches.\<close>

definition ma_part :: "signal_data \<Rightarrow> real \<times> verdict" where
  "ma_part d = (if js_gt (ma20 d) (ma50 d) then (25, BUY) else (0, SELL))"

definition rsi_part :: "signal_data \<Rightarrow> real \<times> verdict" where
  "rsi_part d =
     (if rsi d < 30 then (25, BUY)
      else if rsi d > 70 then (0, SELL)
      else (12.5, NEUTRAL))"

definition macd_part :: "signal_data \<Rightarrow> real \<times> verdict" where
  "macd_part d = (if macdValue d > macdSignal d then (25, BUY) else (0, SELL))"

definition bollinger_part :: "signal_data \<Rightarrow> real \<times> verdict" where
  "bollinger_part d =
     (if js_lt (currentPrice d) (bollingerLower d) then (25, BUY)
      else if js_gt (currentPrice d) (bollingerUpper d) then (0, SELL)
      else (12.5, NEUTRAL))"

text \<open>\<open>buySignals\<close> after the four branches, starting from 0.\<close>

definition buySignals :: "signal_data \<Rightarrow> real" where
  "buySignals d =
     0 + fst (ma_part d) + fst (rsi_part d) + fst (macd_part d) + fst (bollinger_part d)"

definition calculateSignal :: "signal_data \<Rightarrow> signal_result" where
  "calculateSignal d =
     \<lparr>confidence = js_round (buySignals d),
      verdict = (if buySignals d > 50 then BUY
                 else if buySignals d < 50 then SELL else HOLD),
      signals = \<lparr>maCrossover = snd (ma_part d), rsiSignal = snd (rsi_part d),
                 macdVerdict = snd (macd_part d), bollinger = snd (bollinger_part d)\<rparr>\<rparr>"

subsection \<open>Sentiment scorer\<close>

record sentiment_result =
  sentiment :: string
  score :: real

definition determineMarketSentiment :: "real \<Rightarrow> real \<Rightarrow> real \<Rightarrow> sentiment_result" where
  "determineMarketSentiment rsiValue macdV priceVsMA20 =
     (let score0 = 50;
          score1 = (if rsiValue < 30 then score0 - 15
                    else if rsiValue < 40 then score0 - 10
                    else if rsiValue > 70 then score0 + 15
                    else if rsiValue > 60 then score0 + 10
                    else score0);
          score2 = (if macdV > 0 then score1 + min 15 (\<bar>macdV\<bar> * 10)
                    else score1 - min 15 (\<bar>macdV\<bar> * 10));
          score3 = score2 + priceVsMA20;
          score4 = max 0 (min 100 score3)
      in \<lparr>sentiment =
            (if score4 \<ge> 80 then ''Very Bullish''
             else if score4 \<ge> 60 then ''Bullish''
             else if score4 \<ge> 40 then ''Neutral''
             else if score4 \<ge> 20 then ''Bearish''
             else ''Very Bearish''),
          score = score4\<rparr>)"

subsection \<open>The evaluation in \<open>GET\<close>\<close>

text \<open>
  \<open>GET\<close> fetches the chart of a symbol and evaluates it. The model starts after the
  fetch, at \<open>result = data.chart.result[0]\<close>, and takes what the evaluation reads of it:
  \<open>result.timestamp\<close>, \<open>result.indicators.quote[0]\<close> and the two year-range fields of
  \<open>result.meta\<close>, each of which may be missing, as may every array of the quote. An
  exception inside \<open>GET\<close> is caught and answered with status 500; it is the \<open>Inl\<close> of
  the model. Three kinds occur: the explicit "No quote data available", the TypeError of
  calling \<open>filter\<close> on a missing array, and the RangeError of a spread call
  \<open>Math.max(...xs)\<close> with more arguments than the engine accepts.
\<close>

datatype error = NoQuoteData | TypeError | RangeError

text \<open>\<open>result.meta\<close>, as far as numbers are read from it.\<close>

record chart_meta =
  m_fiftyTwoWeekHigh :: "real option"
  m_fiftyTwoWeekLow :: "real option"

record quote =
  q_open :: "real option list option"
  q_high :: "real option list option"
  q_low :: "real option list option"
  q_close :: "real option list option"
  q_volume :: "real option list option"

text \<open>\<open>xs.filter(v => v !== null)\<close>.\<close>

definition filter_null :: "real option list \<Rightarrow> real list" where
  "filter_null xs = List.map_filter (\<lambda>v. v) xs"

text \<open>\<open>a || d\<close> with a default \<open>d\<close> that is a number.\<close>

definition or_default :: "real option \<Rightarrow> real \<Rightarrow> real" where
  "or_default a d = (case a of Some x \<Rightarrow> if x = 0 then d else x | None \<Rightarrow> d)"

text \<open>The argument that \<open>GET\<close> builds for \<open>calculateSignal\<close> from the closes.\<close>

definition signal_input :: "real list \<Rightarrow> signal_data" where
  "signal_input closes =
     (let lastIndex = int (length closes) - 1;
          price = elem closes lastIndex;
          latestMa20 = latest (calculateSMA closes 20) lastIndex;
          latestMa50 = latest (calculateSMA closes 50) lastIndex;
          latestRsi = latest (calculateRSI closes 14) lastIndex;
          latestMacd = latest (macd (calculateMACD closes)) lastIndex;
          latestMacdSignal = latest (signal (calculateMACD closes)) lastIndex;
          latestBollingerUpper = latest (upper (calculateBollingerBands closes 20 2)) lastIndex;
          latestBollingerLower = latest (lower (calculateBollingerBands closes 20 2)) lastIndex
      in \<lparr>currentPrice = price,
          ma20 = js_or latestMa20 price,
          ma50 = js_or latestMa50 price,
          rsi = or_default latestRsi 50,
          macdValue = or_default latestMacd 0,
          macdSignal = or_default latestMacdSignal 0,
          bollingerUpper = js_or latestBollingerUpper price,
          bollingerLower = js_or latestBollingerLower price\<rparr>)"

text \<open>\<open>latestMa20 ? ((currentPrice - latestMa20) / latestMa20) * 100 : 0\<close>. A truthy
  \<open>latestMa20\<close> is an entry of a non-empty series, whose current price is a number
  (lemma \<open>truthy_latest_price\<close>); the branch for a missing price is never taken.\<close>

definition priceVsMA20Percent :: "real option \<Rightarrow> real option \<Rightarrow> real" where
  "priceVsMA20Percent price latestMa20 =
     (case latestMa20 of
        None \<Rightarrow> 0
      | Some m \<Rightarrow>
          if m = 0 then 0
          else (case price of Some p \<Rightarrow> ((p - m) / m) * 100 | None \<Rightarrow> 0))"

record indicators =
  ind_ma20 :: "real option"
  ind_ma50 :: "real option"
  ind_ma200 :: "real option"
  ind_rsi :: "real option"
  ind_macd :: "real option"
  ind_macdSignal :: "real option"
  ind_macdHistogram :: "real option"
  ind_bollingerUpper :: "real option"
  ind_bollingerMiddle :: "real option"
  ind_bollingerLower :: "real option"

record candle =
  c_time :: int
  c_open :: "real option"
  c_high :: "real option"
  c_low :: "real option"
  c_close :: "real option"

text \<open>
  \<open>Math.max\<close> and \<open>Math.min\<close> of numbers: the greatest and the least argument, and
  \<open>-Infinity\<close> and \<open>Infinity\<close> when there is no argument.
\<close>

datatype extreme = Num real | PosInf | NegInf

definition math_max :: "real list \<Rightarrow> extreme" where
  "math_max xs = (case xs of [] \<Rightarrow> NegInf | x # rest \<Rightarrow> Num (fold max rest x))"

definition math_min :: "real list \<Rightarrow> extreme" where
  "math_min xs = (case xs of [] \<Rightarrow> PosInf | x # rest \<Rightarrow> Num (fold min rest x))"

text \<open>
  The spread calls \<open>Math.max(...xs)\<close> and \<open>Math.min(...xs)\<close> pass every entry of
  \<open>xs\<close> as an argument and throw a RangeError when there are more of them than the
  engine accepts in one call. That number depends on the engine (65536 in
  JavaScriptCore, more in V8) and is the parameter \<open>argLimit\<close> of the model.
\<close>

definition spread_max :: "nat \<Rightarrow> real list \<Rightarrow> error + extreme" where
  "spread_max argLimit xs = (if length xs > argLimit then Inl RangeError else Inr (math_max xs))"

definition spread_min :: "nat \<Rightarrow> real list \<Rightarrow> error + extreme" where
  "spread_min argLimit xs = (if length xs > argLimit then Inl RangeError else Inr (math_min xs))"

text \<open>\<open>meta?.fiftyTwoWeekHigh\<close> and \<open>meta?.fiftyTwoWeekLow\<close>.\<close>

definition meta_high :: "chart_meta option \<Rightarrow> real option" where
  "meta_high meta = (case meta of None \<Rightarrow> None | Some m \<Rightarrow> m_fiftyTwoWeekHigh m)"

definition meta_low :: "chart_meta option \<Rightarrow> real option" where
  "meta_low meta = (case meta of None \<Rightarrow> None | Some m \<Rightarrow> m_fiftyTwoWeekLow m)"

text \<open>\<open>v || call\<close>: the call is made only when \<open>v\<close> is falsy.\<close>

definition or_spread :: "real option \<Rightarrow> (error + extreme) \<Rightarrow> error + extreme" where
  "or_spread v call =
     (case v of Some x \<Rightarrow> if x = 0 then call else Inr (Num x) | None \<Rightarrow> call)"

text \<open>Arithmetic on scalars that may be \<open>undefined\<close>: the result is NaN, no number, as
  soon as one operand is no number.\<close>

definition js_arith ::
  "(real \<Rightarrow> real \<Rightarrow> real) \<Rightarrow> real option \<Rightarrow> real option \<Rightarrow> real option" where
  "js_arith f a b = (case (a, b) of (Some x, Some y) \<Rightarrow> Some (f x y) | _ \<Rightarrow> None)"

text \<open>
  The result bundle. Of the response of \<open>GET\<close> it leaves out the strings (symbol, name,
  currency) and the chart series other than the candles, which are built by the same
  \<open>map\<close> over the timestamps and \<open>filter\<close> as the candles; none of them can throw.
\<close>

record result_bundle =
  b_currentPrice :: "real option"
  b_previousClose :: "real option"
  b_change :: "real option"
  b_changePercent :: "real option"
  b_dayHigh :: extreme
  b_dayLow :: extreme
  b_volume :: "real option"
  b_fiftyTwoWeekHigh :: extreme
  b_fiftyTwoWeekLow :: extreme
  b_indicators :: indicators
  b_supportResistance :: levels
  b_signal :: signal_result
  b_sentiment :: sentiment_result
  b_candles :: "candle list"

text \<open>The candles pair the \<open>i\<close>-th timestamp with the \<open>i\<close>-th entry of each filtered
  array. The filter \<open>d.open !== null && ...\<close> that follows keeps every candle: the
  arrays hold no \<open>null\<close> any more, and \<open>undefined !== null\<close>.\<close>

definition candleData ::
  "int list \<Rightarrow> real list \<Rightarrow> real list \<Rightarrow> real list \<Rightarrow> real list \<Rightarrow> candle list" where
  "candleData timestamps opens highs lows closes =
     map (\<lambda>i. \<lparr>c_time = timestamps ! i,
                c_open = elem opens (int i), c_high = elem highs (int i),
                c_low = elem lows (int i), c_close = elem closes (int i)\<rparr>)
         [0..<length timestamps]"

text \<open>
  Everything of the evaluation that cannot throw: the indicators, the latest values, the
  signal, the sentiment and the candles, put together with the four extremes that the
  spread calls have produced.
\<close>

definition assemble ::
  "int list \<Rightarrow> real list \<Rightarrow> real list \<Rightarrow> real list \<Rightarrow> real list \<Rightarrow> real list \<Rightarrow>
   extreme \<Rightarrow> extreme \<Rightarrow> extreme \<Rightarrow> extreme \<Rightarrow> result_bundle" where
  "assemble timestamps closes highs lows volumes opens
     yearHigh yearLow dayHigh dayLow =
     (let lastIndex = int (length closes) - 1;
          price = elem closes lastIndex;
          previousClose = (if length closes > 1 then elem closes (lastIndex - 1) else price);
          change = js_arith (\<lambda>a b. a - b) price previousClose;
          changePercent =
            (if js_gt previousClose (Some 0)
             then js_arith (\<lambda>a b. a * b)
                    (js_arith (\<lambda>a b. a / b) change previousClose) (Some 100)
             else Some 0);
          m = calculateMACD closes;
          bb = calculateBollingerBands closes 20 2;
          latestMa20 = latest (calculateSMA closes 20) lastIndex;
          latestRsi = latest (calculateRSI closes 14) lastIndex;
          latestMacd = latest (macd m) lastIndex
      in \<lparr>b_currentPrice = price,
          b_previousClose = previousClose,
          b_change = change,
          b_changePercent = changePercent,
          b_dayHigh = dayHigh,
          b_dayLow = dayLow,
          b_volume = elem volumes lastIndex,
          b_fiftyTwoWeekHigh = yearHigh,
          b_fiftyTwoWeekLow = yearLow,
          b_indicators =
            \<lparr>ind_ma20 = latestMa20,
             ind_ma50 = latest (calculateSMA closes 50) lastIndex,
             ind_ma200 = latest (calculateSMA closes 200) lastIndex,
             ind_rsi = latestRsi,
             ind_macd = latestMacd,
             ind_macdSignal = latest (signal m) lastIndex,
             ind_macdHistogram = latest (histogram m) lastIndex,
             ind_bollingerUpper = latest (upper bb) lastIndex,
             ind_bollingerMiddle = latest (middle bb) lastIndex,
             ind_bollingerLower = latest (lower bb) lastIndex\<rparr>,
          b_supportResistance = findSupportResistance lows highs,
          b_signal = calculateSignal (signal_input closes),
          b_sentiment =
            determineMarketSentiment (or_default latestRsi 50) (or_default latestMacd 0)
              (priceVsMA20Percent price latestMa20),
          b_candles = candleData timestamps opens highs lows closes\<rparr>)"

text \<open>
  The evaluation of the filtered arrays, in the order of the source: the year range
  \<open>meta?.fiftyTwoWeekHigh || Math.max(...highs)\<close> and
  \<open>meta?.fiftyTwoWeekLow || Math.min(...lows)\<close>, then, inside the response, the day range
  \<open>Math.max(...highs.slice(-96))\<close> and \<open>Math.min(...lows.slice(-96))\<close>. The first
  spread call that throws ends it.
\<close>

definition analyze ::
  "nat \<Rightarrow> chart_meta option \<Rightarrow> int list \<Rightarrow> real list \<Rightarrow> real list \<Rightarrow> real list \<Rightarrow>
   real list \<Rightarrow> real list \<Rightarrow> error + result_bundle" where
  "analyze argLimit meta timestamps closes highs lows volumes opens =
     (case or_spread (meta_high meta) (spread_max argLimit highs) of
        Inl e \<Rightarrow> Inl e
      | Inr yearHigh \<Rightarrow>
          (case or_spread (meta_low meta) (spread_min argLimit lows) of
             Inl e \<Rightarrow> Inl e
           | Inr yearLow \<Rightarrow>
               (case spread_max argLimit (slice_from highs (- 96)) of
                  Inl e \<Rightarrow> Inl e
                | Inr dayHigh \<Rightarrow>
                    (case spread_min argLimit (slice_from lows (- 96)) of
                       Inl e \<Rightarrow> Inl e
                     | Inr dayLow \<Rightarrow>
                         Inr (assemble timestamps closes highs lows volumes opens
                                yearHigh yearLow dayHigh dayLow)))))"

text \<open>
  The checks and the filters in front of the pipeline. \<open>!quote || !quote.close\<close> throws
  "No quote data available"; calling \<open>filter\<close> on a missing array is a TypeError;
  \<open>result.timestamp || []\<close> replaces a missing timestamp array by the empty one.
  Nothing compares the lengths of the arrays.
\<close>

definition evaluate ::
  "nat \<Rightarrow> chart_meta option \<Rightarrow> int list option \<Rightarrow> quote option \<Rightarrow> error + result_bundle" where
  "evaluate argLimit meta timestamp qo =
     (case qo of
        None \<Rightarrow> Inl NoQuoteData
      | Some q \<Rightarrow>
          (case q_close q of
             None \<Rightarrow> Inl NoQuoteData
           | Some close \<Rightarrow>
               (case (q_high q, q_low q, q_volume q, q_open q) of
                  (Some high, Some low, Some volume, Some opn) \<Rightarrow>
                    (let timestamps = (case timestamp of Some ts \<Rightarrow> ts | None \<Rightarrow> []);
                         closes = filter_null close;
                         highs = filter_null high;
                         lows = filter_null low;
                         volumes = filter_null volume;
                         opens = filter_null opn
                     in analyze argLimit meta timestamps closes highs lows volumes opens)
                | _ \<Rightarrow> Inl TypeError)))"

text \<open>
  What decides whether a spread call of the evaluation throws, and the year range when
  none does. Both look at the highs and at the lows alone.
\<close>

definition spreads_fit :: "nat \<Rightarrow> chart_meta option \<Rightarrow> real list \<Rightarrow> real list \<Rightarrow> bool" where
  "spreads_fit argLimit meta highs lows =
     ((truthy (meta_high meta) \<or> length highs \<le> argLimit) \<and>
      (truthy (meta_low meta) \<or> length lows \<le> argLimit) \<and>
      min 96 (length highs) \<le> argLimit \<and>
      min 96 (length lows) \<le> argLimit)"

definition year_high :: "chart_meta option \<Rightarrow> real list \<Rightarrow> extreme" where
  "year_high meta highs =
     (case meta_high meta of
        Some x \<Rightarrow> if x = 0 then math_max highs else Num x
      | None \<Rightarrow> math_max highs)"

definition year_low :: "chart_meta option \<Rightarrow> real list \<Rightarrow> extreme" where
  "year_low meta lows =
     (case meta_low meta of
        Some x \<Rightarrow> if x = 0 then math_min lows else Num x
      | None \<Rightarrow> math_min lows)"

subsection \<open>The RSI of the specification\<close>

text \<open>
  The specification's words for the RSI, to be compared with \<open>calculateRSI\<close>: the
  close-to-close change at index \<open>j\<close>; the gain is the change where it is positive and
  the loss its absolute value where it is negative, both filled with zero elsewhere; the
  averages divide the sums over the \<open>period\<close> changes ending at \<open>i\<close> by \<open>period\<close>;
  the RSI is \<open>100 - 100 / (1 + RS)\<close> with \<open>RS = avgGain / avgLoss\<close>, and 100 when the
  average loss is zero.
\<close>

definition change :: "real list \<Rightarrow> int \<Rightarrow> real" where
  "change closes j = closes ! nat j - closes ! nat (j - 1)"

definition spec_rsi :: "real list \<Rightarrow> int \<Rightarrow> nat \<Rightarrow> real" where
  "spec_rsi closes period i =
     (let window = [int i - period + 1..int i];
          avgGain = (\<Sum>j\<leftarrow>window. max 0 (change closes j)) / real_of_int period;
          avgLoss = (\<Sum>j\<leftarrow>window. max 0 (- change closes j)) / real_of_int period
      in if avgLoss = 0 then 100 else 100 - 100 / (1 + avgGain / avgLoss))"

subsection \<open>Auxiliary definitions for the MACD signal line\<close>

text \<open>The entry that the signal loop pushes at index \<open>i\<close> of the MACD line \<open>ms\<close>,
  given the array \<open>e\<close> it reads as \<open>signalEma\<close>: the number of defined MACD entries
  before \<open>i\<close> is the value of \<open>validIndex\<close> there.\<close>

definition expand_entry :: "real option list \<Rightarrow> real option list \<Rightarrow> nat \<Rightarrow> real option" where
  "expand_entry e ms i =
     (case ms ! i of
        None \<Rightarrow> None
      | Some _ \<Rightarrow> js_or (latest e (int (length (filter_null (take i ms))))) None)"

text \<open>The first \<open>k\<close> entries of the moving average with period \<open>p\<close> of a series that
  stays at \<open>c\<close>: absent during the warm-up, \<open>c\<close> afterwards.\<close>

definition flat_ema :: "nat \<Rightarrow> real \<Rightarrow> nat \<Rightarrow> real option list" where
  "flat_ema p c k = map (\<lambda>i. if i + 1 < p then None else Some c) [0..<k]"

text \<open>A series of 34 closes, all at 10.\<close>

definition flat34 :: "real list" where
  "flat34 = replicate 34 10"

subsection \<open>Concrete inputs\<close>

text \<open>Fifteen closes falling by one each bar: every change of the last window is a
  loss.\<close>

definition falling15 :: "real list" where
  "falling15 = [15, 14, 13, 12, 11, 10, 9, 8, 7, 6, 5, 4, 3, 2, 1]"

text \<open>Twenty closes with mean 2 and standard deviation 1, and twenty with mean \<open>-2\<close>
  and standard deviation 1: the lower band of the first and the upper band of the second
  are 0 at the last index.\<close>

definition high_low20 :: "real list" where
  "high_low20 = [3, 3, 3, 3, 3, 3, 3, 3, 3, 3, 1, 1, 1, 1, 1, 1, 1, 1, 1, 1]"

definition below_zero20 :: "real list" where
  "below_zero20 =
     [- 3, - 3, - 3, - 3, - 3, - 3, - 3, - 3, - 3, - 3,
      - 1, - 1, - 1, - 1, - 1, - 1, - 1, - 1, - 1, - 1]"

text \<open>\<open>2 * k\<close> closes with mean 0 that end at 1.\<close>

definition around_zero :: "nat \<Rightarrow> real list" where
  "around_zero k = replicate k (- 1) @ replicate k 1"

text \<open>A quote whose arrays have the lengths 1 (open), 2 (high), 3 (low), 3 (close,
  with one \<open>null\<close>) and 0 (volume), to go with three timestamps.\<close>

definition ragged_quote :: quote where
  "ragged_quote =
     \<lparr>q_open = Some [Some 1],
      q_high = Some [Some 2, Some 3],
      q_low = Some [Some 1, None, Some 2],
      q_close = Some [None, Some 2, Some 3],
      q_volume = Some []\<rparr>"

section \<open>Properties\<close>

subsection \<open>Index alignment\<close>

lemma length_push_loop:
  "length (fold (\<lambda>i result. result @ [f i result]) xs acc) = length acc + length xs"
  by (induction xs arbitrary: acc) simp_all

lemma length_calculateSMA: "length (calculateSMA data period) = length data"
  by (simp add: calculateSMA_def)

lemma length_calculateEMA: "length (calculateEMA data period) = length data"
  by (simp add: calculateEMA_def length_push_loop)

lemma length_calculateRSI: "length (calculateRSI closes period) = length closes"
  by (simp add: calculateRSI_def)

lemma length_macd_line: "length (macd_line closes) = length closes"
  by (simp add: macd_line_def Let_def)

lemma length_signal_loop:
  "length (fst (fold (signal_step e) ms st)) = length (fst st) + length ms"
  by (induction ms arbitrary: st) (auto simp: signal_step_def split: prod.splits option.splits)

lemma length_signal_line: "length (signal_line ms) = length ms"
  by (simp add: signal_line_def Let_def length_signal_loop)

lemma length_histogram_of: "length (histogram_of ms sig) = length ms"
  by (simp add: histogram_of_def)

lemma length_macd: "length (macd (calculateMACD closes)) = length closes"
  by (simp add: calculateMACD_def Let_def length_macd_line)

lemma length_signal: "length (signal (calculateMACD closes)) = length closes"
  by (simp add: calculateMACD_def Let_def length_macd_line length_signal_line)

lemma length_histogram: "length (histogram (calculateMACD closes)) = length closes"
  by (simp add: calculateMACD_def Let_def length_macd_line length_histogram_of)

lemma length_bollinger:
  "length (upper (calculateBollingerBands closes period k)) = length closes"
  "length (middle (calculateBollingerBands closes period k)) = length closes"
  "length (lower (calculateBollingerBands closes period k)) = length closes"
  by (simp_all add: calculateBollingerBands_def Let_def length_calculateSMA)

text \<open>
  Claim C8. For every input series and every period, each output series of SMA, EMA,
  RSI, MACD (MACD line, signal line and histogram) and Bollinger (upper, middle and
  lower band) has exactly the length of the input series: an absent entry is a
  \<open>None\<close> in place, never a missing position.
\<close>

theorem output_length_eq_input_length:
  "length (calculateSMA data period) = length data \<and>
   length (calculateEMA data period) = length data \<and>
   length (calculateRSI data period) = length data \<and>
   length (macd (calculateMACD data)) = length data \<and>
   length (signal (calculateMACD data)) = length data \<and>
   length (histogram (calculateMACD data)) = length data \<and>
   length (upper (calculateBollingerBands data period k)) = length data \<and>
   length (middle (calculateBollingerBands data period k)) = length data \<and>
   length (lower (calculateBollingerBands data period k)) = length data"
  by (simp add: length_calculateSMA length_calculateEMA length_calculateRSI
      length_macd length_signal length_histogram length_bollinger)

subsection \<open>Insufficient data\<close>

lemma map_all_None:
  "(\<And>i. i < n \<Longrightarrow> f i = None) \<Longrightarrow> map f [0..<n] = replicate n None"
  by (induction n) (simp_all add: replicate_append_same)

lemma short_calculateSMA:
  "int (length data) < period \<Longrightarrow> calculateSMA data period = replicate (length data) None"
  unfolding calculateSMA_def by (rule map_all_None) simp

lemma push_loop_all_None:
  "(\<And>i r. i < n \<Longrightarrow> f i r = None) \<Longrightarrow>
     fold (\<lambda>i result. result @ [f i result]) [0..<n] [] = replicate n None"
  by (induction n) (simp_all add: replicate_append_same)

lemma short_calculateEMA:
  "int (length data) < period \<Longrightarrow> calculateEMA data period = replicate (length data) None"
  unfolding calculateEMA_def by (rule push_loop_all_None) (simp add: ema_entry_def)

lemma short_calculateRSI:
  "int (length closes) < period \<Longrightarrow> calculateRSI closes period = replicate (length closes) None"
  unfolding calculateRSI_def by (rule map_all_None) simp

lemma short_bollinger:
  assumes "int (length closes) < period"
  shows "upper (calculateBollingerBands closes period k) = replicate (length closes) None"
    and "middle (calculateBollingerBands closes period k) = replicate (length closes) None"
    and "lower (calculateBollingerBands closes period k) = replicate (length closes) None"
proof -
  have "\<And>g. map (\<lambda>i. if int i < period - 1 then None else g i) [0..<length closes]
          = replicate (length closes) None"
    using assms by (intro map_all_None) simp
  then show "upper (calculateBollingerBands closes period k) = replicate (length closes) None"
    and "lower (calculateBollingerBands closes period k) = replicate (length closes) None"
    by (simp_all add: calculateBollingerBands_def Let_def)
  show "middle (calculateBollingerBands closes period k) = replicate (length closes) None"
    using assms by (simp add: calculateBollingerBands_def Let_def short_calculateSMA)
qed

lemma short_macd_line:
  "length closes < 26 \<Longrightarrow> macd_line closes = replicate (length closes) None"
  unfolding macd_line_def Let_def
  by (rule map_all_None) (simp add: short_calculateEMA split: option.split)

lemma signal_loop_all_None:
  "fold (signal_step e) (replicate n None) (sig, k) = (sig @ replicate n None, k)"
  by (induction n arbitrary: sig)
     (simp_all add: signal_step_def replicate_app_Cons_same del: fold_replicate)

lemma signal_line_all_None: "signal_line (replicate n None) = replicate n None"
  by (simp add: signal_line_def Let_def signal_loop_all_None del: fold_replicate)

lemma histogram_of_all_None:
  "histogram_of (replicate n None) sig = replicate n None"
  unfolding histogram_of_def by (simp, rule map_all_None) simp

lemma short_calculateMACD:
  assumes "length closes < 26"
  shows "macd (calculateMACD closes) = replicate (length closes) None"
    and "signal (calculateMACD closes) = replicate (length closes) None"
    and "histogram (calculateMACD closes) = replicate (length closes) None"
  using assms
  by (simp_all add: calculateMACD_def Let_def short_macd_line signal_line_all_None
      histogram_of_all_None)

text \<open>
  Claim C6. For every period \<open>P\<close> and every series shorter than \<open>P\<close>, every entry of
  the SMA, EMA, RSI and Bollinger (upper, middle, lower) outputs for that period is
  absent; for every series shorter than the slow MACD period 26 every entry of the MACD
  line, the signal line and the histogram is absent. The engines are total functions
  without an error result: the source has no \<open>throw\<close> in them and every array read is
  modelled, so no number is produced and nothing is raised.
\<close>

theorem insufficient_data_all_absent:
  "(int (length data) < period \<longrightarrow>
      calculateSMA data period = replicate (length data) None \<and>
      calculateEMA data period = replicate (length data) None \<and>
      calculateRSI data period = replicate (length data) None \<and>
      upper (calculateBollingerBands data period k) = replicate (length data) None \<and>
      middle (calculateBollingerBands data period k) = replicate (length data) None \<and>
      lower (calculateBollingerBands data period k) = replicate (length data) None) \<and>
   (length data < 26 \<longrightarrow>
      macd (calculateMACD data) = replicate (length data) None \<and>
      signal (calculateMACD data) = replicate (length data) None \<and>
      histogram (calculateMACD data) = replicate (length data) None)"
  by (simp add: short_calculateSMA short_calculateEMA short_calculateRSI short_bollinger
      short_calculateMACD)

theorem insufficient_data_all_absent_witness:
  "int (length [1, 2 :: real]) < 3 \<and> length [1, 2 :: real] < 26 \<and>
   calculateSMA [1, 2] 3 = [None, None] \<and>
   calculateEMA [1, 2] 3 = [None, None] \<and>
   calculateRSI [1, 2] 3 = [None, None] \<and>
   upper (calculateBollingerBands [1, 2] 3 2) = [None, None] \<and>
   middle (calculateBollingerBands [1, 2] 3 2) = [None, None] \<and>
   lower (calculateBollingerBands [1, 2] 3 2) = [None, None] \<and>
   macd (calculateMACD [1, 2]) = [None, None] \<and>
   signal (calculateMACD [1, 2]) = [None, None] \<and>
   histogram (calculateMACD [1, 2]) = [None, None]"
  using insufficient_data_all_absent [of "[1, 2]" 3 2]
  by (simp add: numeral_2_eq_2)

subsection \<open>Signal synthesizer\<close>

lemma buySignals_cases:
  "buySignals d \<in> {0, 12.5, 25, 37.5, 50, 62.5, 75, 87.5, 100}"
  by (simp add: buySignals_def ma_part_def rsi_part_def macd_part_def bollinger_part_def)

lemma round_verdict:
  assumes "b \<in> {0, 12.5, 25, 37.5, 50, 62.5, 75, 87.5, 100 :: real}"
  shows "0 \<le> js_round b" and "js_round b \<le> 100"
    and "(if b > 50 then BUY else if b < 50 then SELL else HOLD) =
         (if js_round b > 50 then BUY else if js_round b < 50 then SELL else HOLD)"
    and "\<exists>k::nat. k \<le> 8 \<and> b = 12.5 * real k"
proof -
  have cs: "b = 0 \<or> b = 25 / 2 \<or> b = 25 \<or> b = 75 / 2 \<or> b = 50 \<or> b = 125 / 2 \<or>
            b = 75 \<or> b = 175 / 2 \<or> b = 100"
    using assms by auto
  show "0 \<le> js_round b"
    using cs by (elim disjE; hypsubst) (simp_all add: js_round_def)
  show "js_round b \<le> 100"
    using cs by (elim disjE; hypsubst) (simp_all add: js_round_def)
  show "(if b > 50 then BUY else if b < 50 then SELL else HOLD) =
         (if js_round b > 50 then BUY else if js_round b < 50 then SELL else HOLD)"
    using cs by (elim disjE; hypsubst) (simp_all add: js_round_def)
  have k: "12.5 * real 0 = 0" "12.5 * real 1 = 25 / 2" "12.5 * real 2 = 25"
    "12.5 * real 3 = 75 / 2" "12.5 * real 4 = 50" "12.5 * real 5 = 125 / 2"
    "12.5 * real 6 = 75" "12.5 * real 7 = 175 / 2" "12.5 * real 8 = 100"
    by simp_all
  have le: "(0::nat) \<le> 8" "(1::nat) \<le> 8" "(2::nat) \<le> 8" "(3::nat) \<le> 8" "(4::nat) \<le> 8"
    "(5::nat) \<le> 8" "(6::nat) \<le> 8" "(7::nat) \<le> 8" "(8::nat) \<le> 8"
    by simp_all
  show "\<exists>k::nat. k \<le> 8 \<and> b = 12.5 * real k"
    using cs k le by metis
qed

text \<open>
  Claim C1. For every input of the signal synthesizer, the confidence is the rounded sum
  of the four contributions (25 or 0 for the moving-average crossover and for MACD; 25, 0
  or 12.5 for RSI and for Bollinger); that sum is a multiple of 12.5 between 0 and 100;
  the confidence is an integer between 0 and 100; and the verdict, which the code
  decides on the unrounded sum, is BUY when the confidence is above 50, SELL when it is
  below 50 and HOLD when it is 50.
\<close>

theorem signal_confidence_and_verdict:
  fixes d :: signal_data
  defines "contributions \<equiv>
     (if js_gt (ma20 d) (ma50 d) then 25 else 0) +
     (if rsi d < 30 then 25 else if rsi d > 70 then 0 else 12.5) +
     (if macdValue d > macdSignal d then 25 else 0) +
     (if js_lt (currentPrice d) (bollingerLower d) then 25
      else if js_gt (currentPrice d) (bollingerUpper d) then 0 else 12.5)"
  shows "confidence (calculateSignal d) = js_round contributions \<and>
     (\<exists>k::nat. k \<le> 8 \<and> contributions = 12.5 * real k) \<and>
     0 \<le> confidence (calculateSignal d) \<and> confidence (calculateSignal d) \<le> 100 \<and>
     verdict (calculateSignal d) =
       (if confidence (calculateSignal d) > 50 then BUY
        else if confidence (calculateSignal d) < 50 then SELL else HOLD)"
proof -
  have eq: "contributions = buySignals d"
    by (simp add: contributions_def buySignals_def ma_part_def rsi_part_def macd_part_def
        bollinger_part_def)
  have c: "confidence (calculateSignal d) = js_round (buySignals d)"
    and v: "verdict (calculateSignal d) =
       (if buySignals d > 50 then BUY else if buySignals d < 50 then SELL else HOLD)"
    by (simp_all add: calculateSignal_def)
  note rv = round_verdict [OF buySignals_cases [of d]]
  show ?thesis
    unfolding eq c v using rv by simp
qed

subsection \<open>Sentiment scorer\<close>

text \<open>
  Claim C5. For every \<open>(rsi, macd, priceVsMA20)\<close> the score is
  \<open>50 + rsiAdj + macdAdj + priceVsMA20\<close> clamped to \<open>[0, 100]\<close>, where \<open>rsiAdj\<close> is
  \<open>-15\<close> below 30, else \<open>-10\<close> below 40, else \<open>+15\<close> above 70, else \<open>+10\<close> above 60,
  else 0; \<open>macdAdj\<close> is \<open>+min(15, |macd| * 10)\<close> for a positive MACD and
  \<open>-min(15, |macd| * 10)\<close> otherwise; the deviation is added as it is before the one
  final clamp; and the label is Very Bullish from 80, Bullish from 60, Neutral from 40,
  Bearish from 20 and Very Bearish below.
\<close>

theorem sentiment_score_and_label:
  fixes r m p :: real
  defines "rsiAdj \<equiv> (if r < 30 then - 15 else if r < 40 then - 10
                       else if r > 70 then 15 else if r > 60 then 10 else 0)"
    and "macdAdj \<equiv> (if m > 0 then min 15 (\<bar>m\<bar> * 10) else - min 15 (\<bar>m\<bar> * 10))"
  defines "s \<equiv> max 0 (min 100 (50 + rsiAdj + macdAdj + p))"
  shows "score (determineMarketSentiment r m p) = s \<and>
         0 \<le> s \<and> s \<le> 100 \<and>
         sentiment (determineMarketSentiment r m p) =
           (if s \<ge> 80 then ''Very Bullish''
            else if s \<ge> 60 then ''Bullish''
            else if s \<ge> 40 then ''Neutral''
            else if s \<ge> 20 then ''Bearish''
            else ''Very Bearish'')"
proof -
  have s1: "(if r < 30 then 50 - 15 else if r < 40 then 50 - 10
              else if r > 70 then 50 + 15 else if r > 60 then 50 + 10 else 50) = 50 + rsiAdj"
    unfolding rsiAdj_def by simp
  have s2: "\<And>x. (if m > 0 then x + min 15 (\<bar>m\<bar> * 10) else x - min 15 (\<bar>m\<bar> * 10))
              = x + macdAdj"
    unfolding macdAdj_def by simp
  have sc: "score (determineMarketSentiment r m p) = s"
    unfolding determineMarketSentiment_def Let_def
    by (simp only: sentiment_result.select_convs s1 s2 s_def)
  have lb: "sentiment (determineMarketSentiment r m p) =
           (if score (determineMarketSentiment r m p) \<ge> 80 then ''Very Bullish''
            else if score (determineMarketSentiment r m p) \<ge> 60 then ''Bullish''
            else if score (determineMarketSentiment r m p) \<ge> 40 then ''Neutral''
            else if score (determineMarketSentiment r m p) \<ge> 20 then ''Bearish''
            else ''Very Bearish'')"
    unfolding determineMarketSentiment_def Let_def
    by (simp only: sentiment_result.select_convs)
  have rg: "0 \<le> s \<and> s \<le> 100"
    unfolding s_def by simp
  from lb have "sentiment (determineMarketSentiment r m p) =
           (if s \<ge> 80 then ''Very Bullish''
            else if s \<ge> 60 then ''Bullish''
            else if s \<ge> 40 then ''Neutral''
            else if s \<ge> 20 then ''Bearish''
            else ''Very Bearish'')"
    by (simp only: sc)
  with sc rg show ?thesis by blast
qed

subsection \<open>Level detector\<close>

lemma elem_inside: "i < length xs \<Longrightarrow> elem xs (int i) = Some (xs ! i)"
  by (simp add: elem_def)

lemma elem_last: "xs \<noteq> [] \<Longrightarrow> elem xs (int (length xs) - 1) = Some (last xs)"
  by (cases xs rule: rev_cases) (simp_all add: elem_def nat_diff_distrib' nth_append)

lemma elem_empty: "elem [] i = None"
  by (simp add: elem_def)

lemma slice_from_last3: "slice_from xs (- 3) = drop (length xs - 3) xs"
proof -
  have "nat (max (int (length xs) - 3) 0) = length xs - 3" by simp
  then show ?thesis by (simp add: slice_from_def slice_def Let_def)
qed

lemma neighbours_inside:
  assumes "2 \<le> i" and "i + 2 < length xs"
  shows "elem xs (int i) = Some (xs ! i)"
    and "elem xs (int i - 1) = Some (xs ! (i - 1))"
    and "elem xs (int i - 2) = Some (xs ! (i - 2))"
    and "elem xs (int i + 1) = Some (xs ! (i + 1))"
    and "elem xs (int i + 2) = Some (xs ! (i + 2))"
proof -
  have c: "int i - 1 = int (i - 1)" "int i - 2 = int (i - 2)"
    "int i + 1 = int (i + 1)" "int i + 2 = int (i + 2)"
    using assms by simp_all
  have r: "i < length xs" "i - 1 < length xs" "i - 2 < length xs"
    "i + 1 < length xs" "i + 2 < length xs"
    using assms by simp_all
  show "elem xs (int i) = Some (xs ! i)" by (rule elem_inside [OF r(1)])
  show "elem xs (int i - 1) = Some (xs ! (i - 1))"
    unfolding c by (rule elem_inside [OF r(2)])
  show "elem xs (int i - 2) = Some (xs ! (i - 2))"
    unfolding c by (rule elem_inside [OF r(3)])
  show "elem xs (int i + 1) = Some (xs ! (i + 1))"
    unfolding c by (rule elem_inside [OF r(4)])
  show "elem xs (int i + 2) = Some (xs ! (i + 2))"
    unfolding c by (rule elem_inside [OF r(5)])
qed

lemma is_support_inside:
  assumes "2 \<le> i" and "i + 2 < length lows"
  shows "is_support lows i \<longleftrightarrow>
     lows ! i < lows ! (i - 1) \<and> lows ! i < lows ! (i - 2) \<and>
     lows ! i < lows ! (i + 1) \<and> lows ! i < lows ! (i + 2)"
  unfolding is_support_def neighbours_inside [OF assms] js_lt_def by simp

lemma is_resistance_inside:
  assumes "2 \<le> i" and "i + 2 < length highs"
  shows "is_resistance highs i \<longleftrightarrow>
     highs ! i > highs ! (i - 1) \<and> highs ! i > highs ! (i - 2) \<and>
     highs ! i > highs ! (i + 1) \<and> highs ! i > highs ! (i + 2)"
  unfolding is_resistance_def neighbours_inside [OF assms] js_gt_def by simp

lemma scan_bounds:
  assumes "i \<in> set [2..<Suc (n - 3)]"
  shows "2 \<le> i" and "i + 2 < n"
  using assms by auto

lemma scan_range: "[2..<n - 2] = [2..<Suc (n - 3)]"
proof (cases "3 \<le> n")
  case True
  then have "n - 2 = Suc (n - 3)" by simp
  then show ?thesis by simp
next
  case False
  then show ?thesis by simp
qed

lemma map_filter_pick:
  assumes "\<And>i. i \<in> set xs \<Longrightarrow> p i \<longleftrightarrow> q i"
    and "\<And>i. i \<in> set xs \<Longrightarrow> q i \<Longrightarrow> g i = Some (f i)"
  shows "List.map_filter (\<lambda>i. if p i then g i else None) xs = map f (filter q xs)"
  using assms by (induction xs) (simp_all add: List.map_filter_simps)

lemma support_candidates_eq:
  "support_candidates lows =
     map (\<lambda>i. lows ! i)
       (filter (\<lambda>i. lows ! i < lows ! (i - 1) \<and> lows ! i < lows ! (i - 2) \<and>
                     lows ! i < lows ! (i + 1) \<and> lows ! i < lows ! (i + 2))
          [2..<Suc (length lows - 3)])"
  unfolding support_candidates_def scan_range
proof (rule map_filter_pick)
  fix i assume i: "i \<in> set [2..<Suc (length lows - 3)]"
  note b = scan_bounds [OF i]
  show "is_support lows i \<longleftrightarrow>
     lows ! i < lows ! (i - 1) \<and> lows ! i < lows ! (i - 2) \<and>
     lows ! i < lows ! (i + 1) \<and> lows ! i < lows ! (i + 2)"
    by (rule is_support_inside [OF b])
  show "elem lows (int i) = Some (lows ! i)"
    by (rule neighbours_inside(1) [OF b])
qed

lemma resistance_candidates_eq:
  assumes "length highs = length lows"
  shows "resistance_candidates lows highs =
     map (\<lambda>i. highs ! i)
       (filter (\<lambda>i. highs ! i > highs ! (i - 1) \<and> highs ! i > highs ! (i - 2) \<and>
                     highs ! i > highs ! (i + 1) \<and> highs ! i > highs ! (i + 2))
          [2..<Suc (length lows - 3)])"
  unfolding resistance_candidates_def scan_range
proof (rule map_filter_pick)
  fix i assume i: "i \<in> set [2..<Suc (length lows - 3)]"
  have b: "2 \<le> i" "i + 2 < length highs"
    using scan_bounds [OF i] assms by simp_all
  show "is_resistance highs i \<longleftrightarrow>
     highs ! i > highs ! (i - 1) \<and> highs ! i > highs ! (i - 2) \<and>
     highs ! i > highs ! (i + 1) \<and> highs ! i > highs ! (i + 2)"
    by (rule is_resistance_inside [OF b])
  show "elem highs (int i) = Some (highs ! i)"
    by (rule neighbours_inside(1) [OF b])
qed

lemma last3_nonempty: "xs \<noteq> [] \<Longrightarrow> drop (length xs - 3) xs \<noteq> []"
  by (cases xs) simp_all

lemma sort_last3_nonempty:
  fixes xs :: "real list"
  assumes "xs \<noteq> []"
  shows "sort (drop (length xs - 3) xs) \<noteq> []"
proof
  assume "sort (drop (length xs - 3) xs) = []"
  then have "length (sort (drop (length xs - 3) xs)) = 0" by simp
  then have "drop (length xs - 3) xs = []" by (simp only: length_sort length_0_conv)
  with last3_nonempty [OF assms] show False by contradiction
qed

lemma support_fallback:
  "support_candidates lows = [] \<Longrightarrow>
     support (findSupportResistance lows highs) = [elem lows (int (length lows) - 1)]"
  by (simp add: findSupportResistance_def Let_def slice_from_last3)

lemma resistance_fallback:
  "resistance_candidates lows highs = [] \<Longrightarrow>
     resistance (findSupportResistance lows highs) = [elem highs (int (length highs) - 1)]"
  by (simp add: findSupportResistance_def Let_def slice_from_last3)

lemma support_recent:
  "support_candidates lows \<noteq> [] \<Longrightarrow>
     support (findSupportResistance lows highs) =
       map Some (rev (sort (drop (length (support_candidates lows) - 3)
                             (support_candidates lows))))"
  by (simp add: findSupportResistance_def Let_def slice_from_last3 sort_last3_nonempty)

lemma resistance_recent:
  "resistance_candidates lows highs \<noteq> [] \<Longrightarrow>
     resistance (findSupportResistance lows highs) =
       map Some (sort (drop (length (resistance_candidates lows highs) - 3)
                        (resistance_candidates lows highs)))"
  by (simp add: findSupportResistance_def Let_def slice_from_last3 sort_last3_nonempty)

lemma descending_rev_sort: "sorted_wrt (\<lambda>a b. a \<ge> b) (rev (sort (xs :: real list)))"
  by (simp add: sorted_wrt_rev)

text \<open>
  Claim C7. For lows and highs of the same length \<open>n\<close>, the level detector scans the
  indices 2 to \<open>n - 3\<close> inclusive; the support candidates are the lows strictly below
  their two left and two right neighbours, the resistance candidates the highs strictly
  above theirs, both in index order; when there is a support candidate, the support list
  holds the last up to three of them in descending order, and when there is a resistance
  candidate, the resistance list holds the last up to three of them in ascending order;
  when there is no candidate of a kind and the series is not empty, the list of that kind
  is the last low, respectively the last high, alone.
\<close>

theorem level_detector_scan_and_ranking:
  fixes lows highs :: "real list"
  assumes len: "length highs = length lows"
  defines "n \<equiv> length lows"
  defines "sc \<equiv> map (\<lambda>i. lows ! i)
       (filter (\<lambda>i. lows ! i < lows ! (i - 1) \<and> lows ! i < lows ! (i - 2) \<and>
                     lows ! i < lows ! (i + 1) \<and> lows ! i < lows ! (i + 2))
          [2..<Suc (n - 3)])"
  defines "rc \<equiv> map (\<lambda>i. highs ! i)
       (filter (\<lambda>i. highs ! i > highs ! (i - 1) \<and> highs ! i > highs ! (i - 2) \<and>
                     highs ! i > highs ! (i + 1) \<and> highs ! i > highs ! (i + 2))
          [2..<Suc (n - 3)])"
  shows "support_candidates lows = sc \<and>
     resistance_candidates lows highs = rc \<and>
     (sc \<noteq> [] \<longrightarrow>
        (\<exists>ds. support (findSupportResistance lows highs) = map Some ds \<and>
              sorted_wrt (\<lambda>a b. a \<ge> b) ds \<and> mset ds = mset (drop (length sc - 3) sc))) \<and>
     (rc \<noteq> [] \<longrightarrow>
        (\<exists>as. resistance (findSupportResistance lows highs) = map Some as \<and>
              sorted as \<and> mset as = mset (drop (length rc - 3) rc))) \<and>
     (sc = [] \<and> 0 < n \<longrightarrow>
        support (findSupportResistance lows highs) = [Some (last lows)]) \<and>
     (rc = [] \<and> 0 < n \<longrightarrow>
        resistance (findSupportResistance lows highs) = [Some (last highs)])"
proof -
  have s: "support_candidates lows = sc"
    unfolding sc_def n_def by (rule support_candidates_eq)
  have r: "resistance_candidates lows highs = rc"
    unfolding rc_def n_def by (rule resistance_candidates_eq [OF len])
  have a: "\<exists>ds. support (findSupportResistance lows highs) = map Some ds \<and>
              sorted_wrt (\<lambda>a b. a \<ge> b) ds \<and> mset ds = mset (drop (length sc - 3) sc)"
    if "sc \<noteq> []"
  proof (intro exI conjI)
    show "support (findSupportResistance lows highs) =
            map Some (rev (sort (drop (length sc - 3) sc)))"
      using support_recent [of lows highs] that unfolding s by simp
    show "sorted_wrt (\<lambda>a b. a \<ge> b) (rev (sort (drop (length sc - 3) sc)))"
      by (rule descending_rev_sort)
    show "mset (rev (sort (drop (length sc - 3) sc))) = mset (drop (length sc - 3) sc)"
      by simp
  qed
  have b: "\<exists>as. resistance (findSupportResistance lows highs) = map Some as \<and>
              sorted as \<and> mset as = mset (drop (length rc - 3) rc)"
    if "rc \<noteq> []"
  proof (intro exI conjI)
    show "resistance (findSupportResistance lows highs) =
            map Some (sort (drop (length rc - 3) rc))"
      using resistance_recent [of lows highs] that unfolding r by simp
    show "sorted (sort (drop (length rc - 3) rc))"
      by (rule sorted_sort)
    show "mset (sort (drop (length rc - 3) rc)) = mset (drop (length rc - 3) rc)"
      by simp
  qed
  have c: "support (findSupportResistance lows highs) = [Some (last lows)]"
    if "sc = []" "0 < n"
    using support_fallback [of lows highs] elem_last [of lows] that unfolding s n_def by simp
  have d: "resistance (findSupportResistance lows highs) = [Some (last highs)]"
    if "rc = []" "0 < n"
  proof -
    have "highs \<noteq> []" using that(2) len unfolding n_def by auto
    then show ?thesis
      using resistance_fallback [of lows highs] elem_last [of highs] that(1)
      unfolding r by simp
  qed
  from s r a b c d show ?thesis by blast
qed

theorem level_detector_scan_and_ranking_witness:
  "length [1, 2, 3, 2, 1 :: real] = length [3, 2, 1, 2, 3 :: real] \<and>
   support_candidates [3, 2, 1, 2, 3] = [1] \<and>
   resistance_candidates [3, 2, 1, 2, 3] [1, 2, 3, 2, 1] = [3] \<and>
   (\<exists>ds. support (findSupportResistance [3, 2, 1, 2, 3] [1, 2, 3, 2, 1]) = map Some ds \<and>
         sorted_wrt (\<lambda>a b. a \<ge> b) ds \<and> mset ds = mset [1]) \<and>
   (\<exists>as. resistance (findSupportResistance [3, 2, 1, 2, 3] [1, 2, 3, 2, 1]) = map Some as \<and>
         sorted as \<and> mset as = mset [3]) \<and>
   length [3, 4 :: real] = length [1, 2 :: real] \<and> 0 < length [1, 2 :: real] \<and>
   support (findSupportResistance [1, 2] [3, 4]) = [Some 2] \<and>
   resistance (findSupportResistance [1, 2] [3, 4]) = [Some 4]"
  using level_detector_scan_and_ranking [of "[1, 2, 3, 2, 1]" "[3, 2, 1, 2, 3]"]
    level_detector_scan_and_ranking [of "[3, 4]" "[1, 2]"]
  by (simp add: numeral_2_eq_2 numeral_3_eq_3)

text \<open>
  Claim C10. For non-empty lows the support list has between one and three entries, each
  of them a number, and for non-empty highs so has the resistance list; for an empty
  array the fallback reads past the end and the list is the single entry
  \<open>undefined\<close>, so non-emptiness is needed.
\<close>

theorem levels_between_one_and_three:
  fixes lows highs :: "real list"
  shows "(lows \<noteq> [] \<longrightarrow>
            1 \<le> length (support (findSupportResistance lows highs)) \<and>
            length (support (findSupportResistance lows highs)) \<le> 3 \<and>
            None \<notin> set (support (findSupportResistance lows highs))) \<and>
         (highs \<noteq> [] \<longrightarrow>
            1 \<le> length (resistance (findSupportResistance lows highs)) \<and>
            length (resistance (findSupportResistance lows highs)) \<le> 3 \<and>
            None \<notin> set (resistance (findSupportResistance lows highs))) \<and>
         (lows = [] \<longrightarrow> support (findSupportResistance lows highs) = [None]) \<and>
         (highs = [] \<longrightarrow> resistance (findSupportResistance lows highs) = [None])"
proof -
  let ?L = "findSupportResistance lows highs"
  have s: "1 \<le> length (support ?L) \<and> length (support ?L) \<le> 3 \<and> None \<notin> set (support ?L)"
    if "lows \<noteq> []"
  proof (cases "support_candidates lows = []")
    case True
    then show ?thesis
      using support_fallback [of lows highs] elem_last [OF that] by simp
  next
    case False
    have "length (drop (length (support_candidates lows) - 3) (support_candidates lows)) \<le> 3"
      by simp
    moreover have
      "drop (length (support_candidates lows) - 3) (support_candidates lows) \<noteq> []"
      by (rule last3_nonempty [OF False])
    ultimately show ?thesis
      unfolding support_recent [OF False]
      by (auto simp: Suc_le_eq simp del: length_drop)
  qed
  have r: "1 \<le> length (resistance ?L) \<and> length (resistance ?L) \<le> 3 \<and>
           None \<notin> set (resistance ?L)"
    if "highs \<noteq> []"
  proof (cases "resistance_candidates lows highs = []")
    case True
    then show ?thesis
      using resistance_fallback [of lows highs] elem_last [OF that] by simp
  next
    case False
    have "length (drop (length (resistance_candidates lows highs) - 3)
                   (resistance_candidates lows highs)) \<le> 3"
      by simp
    moreover have
      "drop (length (resistance_candidates lows highs) - 3)
         (resistance_candidates lows highs) \<noteq> []"
      by (rule last3_nonempty [OF False])
    ultimately show ?thesis
      unfolding resistance_recent [OF False]
      by (auto simp: Suc_le_eq simp del: length_drop)
  qed
  have e1: "support ?L = [None]" if "lows = []"
    using that
    by (simp add: findSupportResistance_def Let_def support_candidates_def slice_from_last3
        elem_empty)
  have e2: "resistance ?L = [None]" if "highs = []"
  proof -
    have "resistance_candidates lows [] = []"
      unfolding resistance_candidates_def is_resistance_def
      by (induction "[2..<length lows - 2]")
         (simp_all add: List.map_filter_def elem_empty js_gt_def)
    then show ?thesis
      using that resistance_fallback [of lows "[]"] by (simp add: elem_empty)
  qed
  from s r e1 e2 show ?thesis by blast
qed

theorem levels_between_one_and_three_witness:
  "[3, 2, 1, 2, 3 :: real] \<noteq> [] \<and> [1, 2, 3, 2, 1 :: real] \<noteq> [] \<and>
   1 \<le> length (support (findSupportResistance [3, 2, 1, 2, 3] [1, 2, 3, 2, 1])) \<and>
   length (support (findSupportResistance [3, 2, 1, 2, 3] [1, 2, 3, 2, 1])) \<le> 3 \<and>
   None \<notin> set (support (findSupportResistance [3, 2, 1, 2, 3] [1, 2, 3, 2, 1])) \<and>
   1 \<le> length (resistance (findSupportResistance [3, 2, 1, 2, 3] [1, 2, 3, 2, 1])) \<and>
   length (resistance (findSupportResistance [3, 2, 1, 2, 3] [1, 2, 3, 2, 1])) \<le> 3 \<and>
   None \<notin> set (resistance (findSupportResistance [3, 2, 1, 2, 3] [1, 2, 3, 2, 1])) \<and>
   support (findSupportResistance [] []) = [None] \<and>
   resistance (findSupportResistance [] []) = [None]"
  using levels_between_one_and_three [of "[3, 2, 1, 2, 3]" "[1, 2, 3, 2, 1]"]
    levels_between_one_and_three [of "[]" "[]"]
  by simp

subsection \<open>Relative strength index\<close>

lemma rsi_loop_sums:assumes "\<And>j. j \<in> set js \<Longrightarrow> 0 < j"
  shows "fold (rsi_step closes) js (g, l) =
     (g + (\<Sum>j\<leftarrow>js. max 0 (change closes j)), l + (\<Sum>j\<leftarrow>js. max 0 (- change closes j)))"
  using assms
proof (induction js arbitrary: g l)
  case Nil
  then show ?case by simp
next
  case (Cons j js)
  have j: "0 < j" using Cons.prems by simp
  have step: "rsi_step closes j (g, l) =
      (g + max 0 (change closes j), l + max 0 (- change closes j))"
    using j by (simp add: rsi_step_def change_def Let_def max_def)
  show ?case
    using Cons.IH [of "g + max 0 (change closes j)" "l + max 0 (- change closes j)"] Cons.prems
    by (simp add: step add.assoc)
qed

lemma calculateRSI_nth:
  assumes "i < length closes"
  shows "calculateRSI closes period ! i =
     (if int i < period then None
      else (case fold (rsi_step closes) [int i - period + 1..int i] (0, 0) of
              (sumGain, sumLoss) \<Rightarrow>
                (let avgGain = sumGain / real_of_int period;
                     avgLoss = sumLoss / real_of_int period
                 in if avgLoss = 0 then Some 100
                    else (let rs = avgGain / avgLoss
                          in Some (100 - (100 / (1 + rs)))))))"
  using assms by (simp add: calculateRSI_def)

text \<open>
  Claim C4. For every close series and every period (a positive integer), the RSI entry
  at an index \<open>i \<ge> period\<close> is \<open>100 - 100 / (1 + RS)\<close> with \<open>RS = avgGain / avgLoss\<close>,
  the two averages being the sums of the zero-filled gains and losses over the \<open>period\<close>
  changes ending at \<open>i\<close>, divided by \<open>period\<close> and computed afresh at every index;
  it is exactly 100 when the average loss is zero; and the entry at every index below
  \<open>period\<close> is absent.
\<close>

theorem rsi_simple_window_average:
  assumes "1 \<le> period" and "i < length closes"
  shows "(int i < period \<longrightarrow> calculateRSI closes period ! i = None) \<and>
         (period \<le> int i \<longrightarrow>
            calculateRSI closes period ! i = Some (spec_rsi closes period i))"
proof (intro conjI impI)
  assume "int i < period"
  then show "calculateRSI closes period ! i = None"
    by (simp add: calculateRSI_nth [OF assms(2)])
next
  assume ge: "period \<le> int i"
  have pos: "\<And>j. j \<in> set [int i - period + 1..int i] \<Longrightarrow> 0 < j"
    using ge by simp
  have f: "fold (rsi_step closes) [int i - period + 1..int i] (0, 0) =
     ((\<Sum>j\<leftarrow>[int i - period + 1..int i]. max 0 (change closes j)),
      (\<Sum>j\<leftarrow>[int i - period + 1..int i]. max 0 (- change closes j)))"
    using rsi_loop_sums [OF pos, of "[int i - period + 1..int i]" closes 0 0] by simp
  have n: "\<not> int i < period" using ge by simp
  show "calculateRSI closes period ! i = Some (spec_rsi closes period i)"
    unfolding calculateRSI_nth [OF assms(2)] f spec_rsi_def Let_def
    using n by simp
qed

theorem rsi_simple_window_average_witness:
  "(1::int) \<le> 2 \<and> 3 < length [1, 2, 4, 3 :: real] \<and> 1 < length [1, 2, 4, 3 :: real] \<and>
   int 1 < 2 \<and> calculateRSI [1, 2, 4, 3] 2 ! 1 = None \<and>
   (2::int) \<le> int 3 \<and> calculateRSI [1, 2, 4, 3] 2 ! 3 = Some (spec_rsi [1, 2, 4, 3] 2 3)"
  using rsi_simple_window_average [of 2 3 "[1, 2, 4, 3]"]
    rsi_simple_window_average [of 2 1 "[1, 2, 4, 3]"]
  by simp

subsection \<open>MACD signal line\<close>

lemma filter_null_snoc:
  "filter_null (ms @ [m]) = filter_null ms @ (case m of None \<Rightarrow> [] | Some v \<Rightarrow> [v])"
  by (simp add: filter_null_def List.map_filter_def split: option.split)

lemma signal_loop_expand:
  "fold (signal_step e) ms ([], 0) =
     (map (expand_entry e ms) [0..<length ms], int (length (filter_null ms)))"
proof (induction ms rule: rev_induct)
  case Nil
  then show ?case by (simp add: filter_null_def List.map_filter_simps)
next
  case (snoc m ms)
  have old: "map (expand_entry e (ms @ [m])) [0..<length ms] =
             map (expand_entry e ms) [0..<length ms]"
    by (rule map_cong) (simp_all add: expand_entry_def nth_append cong: option.case_cong)
  have new: "expand_entry e (ms @ [m]) (length ms) =
       (case m of None \<Rightarrow> None
        | Some _ \<Rightarrow> js_or (latest e (int (length (filter_null ms)))) None)"
    by (simp add: expand_entry_def cong: option.case_cong)
  have rhs: "map (expand_entry e (ms @ [m])) [0..<length (ms @ [m])] =
       map (expand_entry e ms) [0..<length ms] @
       [case m of None \<Rightarrow> None
        | Some _ \<Rightarrow> js_or (latest e (int (length (filter_null ms)))) None]"
    by (simp add: old new)
  have lhs: "fold (signal_step e) (ms @ [m]) ([], 0) =
       signal_step e m (map (expand_entry e ms) [0..<length ms], int (length (filter_null ms)))"
    by (simp add: snoc.IH)
  show ?case
    unfolding lhs rhs filter_null_snoc
    by (cases m) (simp_all add: signal_step_def)
qed

lemma signal_line_nth:
  assumes "i < length ms"
  shows "signal_line ms ! i =
     (case ms ! i of
        None \<Rightarrow> None
      | Some _ \<Rightarrow>
          js_or (latest (calculateEMA (filter_null ms) 9)
                   (int (length (filter_null (take i ms))))) None)"
proof -
  have "signal_line ms = map (expand_entry (calculateEMA (filter_null ms) 9) ms) [0..<length ms]"
    by (simp add: signal_line_def Let_def signal_loop_expand filter_null_def)
  then show ?thesis
    using assms by (simp add: expand_entry_def cong: option.case_cong)
qed


lemma reduce_add_sum_list: "reduce_add xs = sum_list xs"
proof -
  have "foldl (\<lambda>a b. a + b) a xs = a + sum_list xs" for a :: real
    by (induction xs arbitrary: a) (simp_all add: add.assoc)
  then show ?thesis by (simp add: reduce_add_def)
qed

lemma reduce_add_replicate: "reduce_add (replicate k c) = real k * c"
  by (simp add: reduce_add_sum_list sum_list_replicate)

lemma slice_prefix: "0 \<le> p \<Longrightarrow> slice xs 0 p = take (nat p) xs"
  by (simp add: slice_def Let_def min_def)

lemma ema_entry_flat:
  assumes p: "1 \<le> p" and k: "k < n"
  shows "ema_entry (replicate n c) (int p) k (flat_ema p c k) =
           (if k + 1 < p then None else Some c)"
proof -
  consider "k + 1 < p" | "k + 1 = p" | "p < k + 1" by linarith
  then show ?thesis
  proof cases
    case 1
    then show ?thesis by (simp add: ema_entry_def)
  next
    case 2
    then have "p \<le> n" using k by simp
    then have "take p (replicate n c) = replicate p c" by (simp add: min_def)
    then have "reduce_add (slice (replicate n c) 0 (int p)) / real_of_int (int p) = c"
      using p by (simp add: slice_prefix reduce_add_replicate)
    moreover have "int k = int p - 1" "\<not> int k < int p - 1" using 2 by simp_all
    ultimately show ?thesis using 2 by (simp add: ema_entry_def Let_def)
  next
    case 3
    then have k1: "k - 1 < k" "\<not> (k - 1) + 1 < p" "int k - 1 = int (k - 1)"
      using p by simp_all
    have "flat_ema p c k ! (k - 1) = Some c"
      using k1 by (simp add: flat_ema_def)
    moreover have "k - 1 < length (flat_ema p c k)"
      using k1(1) by (simp add: flat_ema_def)
    ultimately have "elem (flat_ema p c k) (int (k - 1)) = Some (Some c)"
      using elem_inside [of "k - 1" "flat_ema p c k"] by simp
    then have "as_number (flat_ema p c k) (int k - 1) = c"
      unfolding k1(3) by (simp add: as_number_def latest_def)
    moreover have "\<not> int k < int p - 1" "int k \<noteq> int p - 1" "replicate n c ! k = c"
      using 3 k by simp_all
    ultimately show ?thesis using 3 by (simp add: ema_entry_def Let_def)
  qed
qed

lemma ema_loop_flat:
  assumes "1 \<le> p" and "k \<le> n"
  shows "fold (\<lambda>i result. result @ [ema_entry (replicate n c) (int p) i result]) [0..<k] []
           = flat_ema p c k"
  using assms(2)
proof (induction k)
  case 0
  then show ?case by (simp add: flat_ema_def)
next
  case (Suc k)
  then have k: "k < n" and ih: "fold (\<lambda>i result. result @ [ema_entry (replicate n c) (int p) i result]) [0..<k] []
           = flat_ema p c k" by simp_all
  have "flat_ema p c (Suc k) = flat_ema p c k @ [if k + 1 < p then None else Some c]"
    by (simp add: flat_ema_def)
  then show ?case
    using ema_entry_flat [OF assms(1) k, of c] by (simp add: ih)
qed

lemma calculateEMA_flat:
  "1 \<le> p \<Longrightarrow> calculateEMA (replicate n c) (int p) = flat_ema p c n"
  unfolding calculateEMA_def using ema_loop_flat [of p n n c] by simp


lemma flat_ema_nth: "i < k \<Longrightarrow> flat_ema p c k ! i = (if i + 1 < p then None else Some c)"
  by (simp add: flat_ema_def)

lemma length_flat_ema: "length (flat_ema p c k) = k"
  by (simp add: flat_ema_def)

lemma take_flat_ema: "i \<le> k \<Longrightarrow> take i (flat_ema p c k) = flat_ema p c i"
  by (simp add: flat_ema_def take_map min_def)

lemma filter_null_flat_ema:
  "1 \<le> p \<Longrightarrow> filter_null (flat_ema p c k) = replicate (k + 1 - p) c"
proof (induction k)
  case 0
  then show ?case by (simp add: flat_ema_def filter_null_def List.map_filter_simps)
next
  case (Suc k)
  have "flat_ema p c (Suc k) = flat_ema p c k @ [if k + 1 < p then None else Some c]"
    by (simp add: flat_ema_def)
  then show ?case
    using Suc.IH Suc.prems
    by (simp add: filter_null_snoc Suc_diff_le replicate_append_same)
qed

lemma macd_line_flat: "macd_line (replicate n c) = flat_ema 26 0 n"
proof -
  have e12: "calculateEMA (replicate n c) 12 = flat_ema 12 c n"
    using calculateEMA_flat [of 12 n c] by simp
  have e26: "calculateEMA (replicate n c) 26 = flat_ema 26 c n"
    using calculateEMA_flat [of 26 n c] by simp
  show ?thesis
    unfolding macd_line_def Let_def e12 e26 flat_ema_def
    by (rule map_cong) (simp_all)
qed

text \<open>
  Claim C3 says that at the \<open>k\<close>-th defined MACD entry the signal line holds the
  \<open>k\<close>-th entry of the 9-period EMA of the compacted MACD values, absent only where
  that entry is absent. The loop pushes \<open>signalEma[validIndex] || null\<close> (lemma
  \<open>signal_line_nth\<close>), which also turns a defined entry 0 into \<open>null\<close>. For 34 closes
  at 10 the MACD line is defined and 0 from index 25 on, the entry 8 of the EMA of the
  nine compacted values is defined and 0, and the signal line and the histogram are
  absent at index 33.
\<close>

theorem signal_line_drops_zero:
  "macd (calculateMACD flat34) ! 33 = Some 0 \<and>
   length (filter_null (take 33 (macd (calculateMACD flat34)))) = 8 \<and>
   calculateEMA (filter_null (macd (calculateMACD flat34))) 9 ! 8 = Some 0 \<and>
   signal (calculateMACD flat34) ! 33 = None \<and>
   histogram (calculateMACD flat34) ! 33 = None"
proof -
  let ?ms = "flat_ema 26 0 34"
  have m: "macd (calculateMACD flat34) = ?ms"
    by (simp add: calculateMACD_def Let_def flat34_def macd_line_flat)
  have s: "signal (calculateMACD flat34) = signal_line ?ms"
    by (simp add: calculateMACD_def Let_def flat34_def macd_line_flat)
  have h: "histogram (calculateMACD flat34) = histogram_of ?ms (signal_line ?ms)"
    by (simp add: calculateMACD_def Let_def flat34_def macd_line_flat)
  have m33: "?ms ! 33 = Some 0"
    by (simp add: flat_ema_nth)
  have k: "length (filter_null (take 33 ?ms)) = 8"
    by (simp add: take_flat_ema filter_null_flat_ema)
  have e: "calculateEMA (filter_null ?ms) 9 = flat_ema 9 0 9"
    using calculateEMA_flat [of 9 9 0] by (simp add: filter_null_flat_ema)
  have e8: "calculateEMA (filter_null ?ms) 9 ! 8 = Some 0"
    unfolding e by (simp add: flat_ema_nth)
  have "latest (flat_ema 9 0 9) 8 = Some 0"
    using elem_inside [of 8 "flat_ema 9 0 9"]
    by (simp add: latest_def length_flat_ema flat_ema_nth)
  then have s33: "signal_line ?ms ! 33 = None"
    using signal_line_nth [of 33 ?ms] m33 k
    by (simp add: length_flat_ema e js_or_def truthy_def)
  have h33: "histogram_of ?ms (signal_line ?ms) ! 33 = None"
    using m33 s33 by (simp add: histogram_of_def length_flat_ema)
  show ?thesis
    unfolding m s h using m33 k e8 s33 h33 by simp
qed

subsection \<open>The evaluation in \<open>GET\<close>\<close>

lemma truthy_latest_price:
  assumes "truthy (latest (calculateSMA closes 20) (int (length closes) - 1))"
  shows "elem closes (int (length closes) - 1) \<noteq> None"
proof (cases "closes = []")
  case True
  then show ?thesis
    using assms by (simp add: calculateSMA_def latest_def elem_def truthy_def)
next
  case False
  then show ?thesis by (simp add: elem_last)
qed

lemma signal_input_fields:
  "currentPrice (signal_input closes) = elem closes (int (length closes) - 1)"
  "ma20 (signal_input closes) =
     js_or (latest (calculateSMA closes 20) (int (length closes) - 1))
       (elem closes (int (length closes) - 1))"
  "ma50 (signal_input closes) =
     js_or (latest (calculateSMA closes 50) (int (length closes) - 1))
       (elem closes (int (length closes) - 1))"
  "rsi (signal_input closes) =
     or_default (latest (calculateRSI closes 14) (int (length closes) - 1)) 50"
  "bollingerUpper (signal_input closes) =
     js_or (latest (upper (calculateBollingerBands closes 20 2)) (int (length closes) - 1))
       (elem closes (int (length closes) - 1))"
  "bollingerLower (signal_input closes) =
     js_or (latest (lower (calculateBollingerBands closes 20 2)) (int (length closes) - 1))
       (elem closes (int (length closes) - 1))"
  by (simp_all add: signal_input_def Let_def)

lemma js_or_zero: "js_or (Some 0) p = p"
  by (simp add: js_or_def truthy_def)

lemma latest_rsi_falling15:
  "latest (calculateRSI falling15 14) (int (length falling15) - 1) = Some 0"
  by code_simp

lemma latest_sma20_around_zero:
  "latest (calculateSMA (around_zero 10) 20) (int (length (around_zero 10)) - 1) = Some 0"
  by code_simp

lemma latest_sma50_around_zero:
  "latest (calculateSMA (around_zero 25) 50) (int (length (around_zero 25)) - 1) = Some 0"
  by code_simp

lemma latest_lower_high_low20:
  "latest (lower (calculateBollingerBands high_low20 20 2)) (int (length high_low20) - 1) = Some 0"
  by (simp add: calculateBollingerBands_def Let_def latest_def elem_def high_low20_def
      as_number_def calculateSMA_def slice_def reduce_add_def window_std_def)

lemma latest_upper_below_zero20:
  "latest (upper (calculateBollingerBands below_zero20 20 2)) (int (length below_zero20) - 1)
     = Some 0"
  by (simp add: calculateBollingerBands_def Let_def latest_def elem_def below_zero20_def
      as_number_def calculateSMA_def slice_def reduce_add_def window_std_def)

lemma last_prices:
  "elem (around_zero 10) (int (length (around_zero 10)) - 1) = Some 1"
  "elem (around_zero 25) (int (length (around_zero 25)) - 1) = Some 1"
  "elem high_low20 (int (length high_low20) - 1) = Some 1"
  "elem below_zero20 (int (length below_zero20) - 1) = Some (- 1)"
  by (simp_all add: elem_def around_zero_def high_low20_def below_zero20_def nth_append)

text \<open>
  Claim C9. The substitution of a neutral default in front of the signal synthesizer
  fires on every falsy latest value, not only on an absent one. For fifteen falling
  closes the latest RSI is defined and exactly 0, and the synthesizer is called with RSI
  50 (its RSI verdict is NEUTRAL, where 0 would give BUY); and for every series a latest
  MA20, MA50, upper or lower band that is defined and exactly 0 is replaced by the
  current price.
\<close>

theorem falsy_latest_replaced_by_default:
  "latest (calculateRSI falling15 14) (int (length falling15) - 1) = Some 0 \<and>
   rsi (signal_input falling15) = 50 \<and>
   rsiSignal (signals (calculateSignal (signal_input falling15))) = NEUTRAL \<and>
   (\<forall>closes. latest (calculateSMA closes 20) (int (length closes) - 1) = Some 0 \<longrightarrow>
      ma20 (signal_input closes) = currentPrice (signal_input closes)) \<and>
   (\<forall>closes. latest (calculateSMA closes 50) (int (length closes) - 1) = Some 0 \<longrightarrow>
      ma50 (signal_input closes) = currentPrice (signal_input closes)) \<and>
   (\<forall>closes.
      latest (upper (calculateBollingerBands closes 20 2)) (int (length closes) - 1) = Some 0 \<longrightarrow>
      bollingerUpper (signal_input closes) = currentPrice (signal_input closes)) \<and>
   (\<forall>closes.
      latest (lower (calculateBollingerBands closes 20 2)) (int (length closes) - 1) = Some 0 \<longrightarrow>
      bollingerLower (signal_input closes) = currentPrice (signal_input closes))"
proof -
  have r1: "rsi (signal_input falling15) = 50"
    by (simp add: signal_input_fields latest_rsi_falling15 or_default_def)
  have r2: "rsiSignal (signals (calculateSignal (signal_input falling15))) = NEUTRAL"
    by (simp add: calculateSignal_def rsi_part_def r1)
  show ?thesis
    using latest_rsi_falling15 r1 r2 by (simp add: signal_input_fields js_or_zero)
qed

theorem falsy_latest_replaced_by_default_witness:
  "latest (calculateSMA (around_zero 10) 20) (int (length (around_zero 10)) - 1) = Some 0 \<and>
   ma20 (signal_input (around_zero 10)) = Some 1 \<and>
   latest (calculateSMA (around_zero 25) 50) (int (length (around_zero 25)) - 1) = Some 0 \<and>
   ma50 (signal_input (around_zero 25)) = Some 1 \<and>
   latest (upper (calculateBollingerBands below_zero20 20 2)) (int (length below_zero20) - 1)
     = Some 0 \<and>
   bollingerUpper (signal_input below_zero20) = Some (- 1) \<and>
   latest (lower (calculateBollingerBands high_low20 20 2)) (int (length high_low20) - 1)
     = Some 0 \<and>
   bollingerLower (signal_input high_low20) = Some 1"
proof -
  note t = falsy_latest_replaced_by_default
  have p: "\<And>closes. currentPrice (signal_input closes) = elem closes (int (length closes) - 1)"
    by (rule signal_input_fields(1))
  from t have "ma20 (signal_input (around_zero 10)) = currentPrice (signal_input (around_zero 10))"
    using latest_sma20_around_zero by blast
  then have a: "ma20 (signal_input (around_zero 10)) = Some 1"
    by (simp only: p last_prices)
  from t have "ma50 (signal_input (around_zero 25)) = currentPrice (signal_input (around_zero 25))"
    using latest_sma50_around_zero by blast
  then have b: "ma50 (signal_input (around_zero 25)) = Some 1"
    by (simp only: p last_prices)
  from t have "bollingerUpper (signal_input below_zero20) = currentPrice (signal_input below_zero20)"
    using latest_upper_below_zero20 by blast
  then have c: "bollingerUpper (signal_input below_zero20) = Some (- 1)"
    by (simp only: p last_prices)
  from t have "bollingerLower (signal_input high_low20) = currentPrice (signal_input high_low20)"
    using latest_lower_high_low20 by blast
  then have d: "bollingerLower (signal_input high_low20) = Some 1"
    by (simp only: p last_prices)
  from a b c d latest_sma20_around_zero latest_sma50_around_zero latest_upper_below_zero20
    latest_lower_high_low20
  show ?thesis by (intro conjI)
qed

lemma slice_from_last96: "slice_from xs (- 96) = drop (length xs - 96) xs"
proof -
  have "nat (max (int (length xs) - 96) 0) = length xs - 96" by simp
  then show ?thesis by (simp add: slice_from_def slice_def Let_def)
qed

lemma length_last96: "length (slice_from xs (- 96)) = min 96 (length xs)"
  by (simp add: slice_from_last96)

lemma or_spread_max:
  "or_spread (meta_high meta) (spread_max argLimit highs) =
     (if truthy (meta_high meta) \<or> length highs \<le> argLimit
      then Inr (year_high meta highs) else Inl RangeError)"
  by (simp add: or_spread_def spread_max_def truthy_def year_high_def split: option.split)

lemma or_spread_min:
  "or_spread (meta_low meta) (spread_min argLimit lows) =
     (if truthy (meta_low meta) \<or> length lows \<le> argLimit
      then Inr (year_low meta lows) else Inl RangeError)"
  by (simp add: or_spread_def spread_min_def truthy_def year_low_def split: option.split)

lemma analyze_outcome:
  "analyze argLimit meta timestamps closes highs lows volumes opens =
     (if spreads_fit argLimit meta highs lows
      then Inr (assemble timestamps closes highs lows volumes opens
                  (year_high meta highs) (year_low meta lows)
                  (math_max (slice_from highs (- 96))) (math_min (slice_from lows (- 96))))
      else Inl RangeError)"
proof -
  have d: "spread_max argLimit (slice_from highs (- 96)) =
        (if min 96 (length highs) \<le> argLimit
         then Inr (math_max (slice_from highs (- 96))) else Inl RangeError)"
      "spread_min argLimit (slice_from lows (- 96)) =
        (if min 96 (length lows) \<le> argLimit
         then Inr (math_min (slice_from lows (- 96))) else Inl RangeError)"
    by (auto simp: spread_max_def spread_min_def length_last96)
  show ?thesis
    unfolding analyze_def or_spread_max or_spread_min d spreads_fit_def
    by (auto simp: min_def)
qed

lemma long_highs_throw:
  "length (filter_null high) > argLimit \<Longrightarrow>
   evaluate argLimit None timestamp
     (Some \<lparr>q_open = Some opn, q_high = Some high, q_low = Some low,
            q_close = Some close, q_volume = Some volume\<rparr>) = Inl RangeError"
  by (simp add: evaluate_def Let_def analyze_outcome spreads_fit_def meta_high_def truthy_def)

text \<open>
  Claim C2 says that arrays of mismatched lengths make the evaluation fail with an error
  and produce no result bundle. The evaluation has no length check. For three timestamps
  and a quote with arrays of the lengths 1, 2, 3, 3 and 0 it returns a bundle, and its
  candles pair the first timestamp with the second raw close and leave later fields
  \<open>undefined\<close>.
\<close>

theorem mismatched_lengths_accepted:
  "evaluate 65536 None (Some [100, 200, 300]) (Some ragged_quote) =
     Inr (assemble [100, 200, 300] [2, 3] [2, 3] [1, 2] [] [1]
            (Num 3) (Num 1) (Num 3) (Num 1)) \<and>
   b_candles (assemble [100, 200, 300] [2, 3] [2, 3] [1, 2] [] [1]
                (Num 3) (Num 1) (Num 3) (Num 1)) =
     [\<lparr>c_time = 100, c_open = Some 1, c_high = Some 2, c_low = Some 1, c_close = Some 2\<rparr>,
      \<lparr>c_time = 200, c_open = None, c_high = Some 3, c_low = Some 2, c_close = Some 3\<rparr>,
      \<lparr>c_time = 300, c_open = None, c_high = None, c_low = None, c_close = None\<rparr>]"
proof -
  have f: "filter_null [None, Some 2, Some 3] = [2, 3]" "filter_null [Some 2, Some 3] = [2, 3]"
    "filter_null [Some 1, None, Some 2] = [1, 2]" "filter_null [] = []"
    "filter_null [Some 1] = [1]"
    by (simp_all add: filter_null_def List.map_filter_simps)
  have x: "year_high None [2, 3] = Num 3" "year_low None [1, 2] = Num 1"
    "math_max (slice_from [2, 3] (- 96)) = Num 3" "math_min (slice_from [1, 2] (- 96)) = Num 1"
    by (simp_all add: year_high_def year_low_def meta_high_def meta_low_def math_max_def
        math_min_def slice_from_last96)
  have fit: "spreads_fit 65536 None [2, 3] [1, 2]"
    by (simp add: spreads_fit_def)
  have "evaluate 65536 None (Some [100, 200, 300]) (Some ragged_quote) =
     Inr (assemble [100, 200, 300] [2, 3] [2, 3] [1, 2] [] [1]
            (Num 3) (Num 1) (Num 3) (Num 1))"
    by (simp add: evaluate_def ragged_quote_def f analyze_outcome fit x)
  moreover have "candleData [100, 200, 300] [1] [2, 3] [1, 2] [2, 3] =
     [\<lparr>c_time = 100, c_open = Some 1, c_high = Some 2, c_low = Some 1, c_close = Some 2\<rparr>,
      \<lparr>c_time = 200, c_open = None, c_high = Some 3, c_low = Some 2, c_close = Some 3\<rparr>,
      \<lparr>c_time = 300, c_open = None, c_high = None, c_low = None, c_close = None\<rparr>]"
    by (simp add: candleData_def elem_def upt_rec)
  ultimately show ?thesis
    by (simp add: assemble_def Let_def)
qed

text \<open>
  Claim C2 as amended. The evaluation compares no array lengths. Whenever the five arrays
  of the quote are present, mismatched or not, it returns a result bundle computed from
  the arrays after each has been filtered for \<open>null\<close> on its own, unless a spread call
  receives more arguments than the engine accepts: \<open>Math.max(...highs)\<close> or
  \<open>Math.min(...lows)\<close>, made when \<open>meta\<close> gives no year range, or their day-range
  counterparts on the last 96 entries. Then it answers with that RangeError. The
  condition looks at the highs and at the lows each on their own.
\<close>

theorem evaluate_ignores_lengths:
  "evaluate argLimit meta timestamp
     (Some \<lparr>q_open = Some opn, q_high = Some high, q_low = Some low,
            q_close = Some close, q_volume = Some volume\<rparr>) =
   (if spreads_fit argLimit meta (filter_null high) (filter_null low)
    then Inr (assemble (case timestamp of Some ts \<Rightarrow> ts | None \<Rightarrow> [])
                (filter_null close) (filter_null high) (filter_null low)
                (filter_null volume) (filter_null opn)
                (year_high meta (filter_null high)) (year_low meta (filter_null low))
                (math_max (slice_from (filter_null high) (- 96)))
                (math_min (slice_from (filter_null low) (- 96))))
    else Inl RangeError)"
  by (simp add: evaluate_def Let_def analyze_outcome)

end
